theory Spec2Isabelle
  imports Main "HOL-Library.AList"
begin

section \<open>Data model of synapse/handlers/identity.py\<close>

text \<open>
  The handler works on Python dictionaries: credential objects, the threepid descriptor,
  the rewrite rules of the configuration and the JSON objects the identity server answers
  with. A dictionary is a partial map from keys to values; the values the handler reads
  from them (\<open>id_server\<close>, \<open>client_secret\<close>, \<open>sid\<close>, \<open>medium\<close>, \<open>address\<close>) are
  strings. A lookup \<open>d[k]\<close> of an absent key raises \<open>KeyError\<close>, \<open>d.get(k, v)\<close>
  returns the default.
\<close>

type_synonym dict = "string \<rightharpoonup> string"

definition dict_get :: "dict \<Rightarrow> string \<Rightarrow> string \<Rightarrow> string" where
  "dict_get d k dflt = (case d k of Some v \<Rightarrow> v | None \<Rightarrow> dflt)"

text \<open>
  Request bodies are built by the handler as nested dictionary literals; they are kept as
  JSON values whose objects are association lists in insertion order.
\<close>

datatype json = JStr string | JInt int | JDict "(string \<times> json) list"

text \<open>
  The exceptions the handler raises, catches or lets through. \<open>SynapseError\<close> carries
  the HTTP status, the message and the optional \<open>errcode\<close> argument (of \<open>Codes\<close>);
  \<open>HttpResponseException\<close> carries status, message and response body;
  \<open>CodeMessageException\<close> carries status and message.
\<close>

datatype Codes = SERVER_NOT_TRUSTED

datatype error =
    SynapseError int string "Codes option"
  | HttpResponseException int string string
  | CodeMessageException int string
  | KeyError string
  | RuntimeError string
  | OtherException string

datatype level = Debug | Info | Warn | Error

datatype http_verb = GET | POST

text \<open>
  Modelled from the spec: the request signer
  \<open>sign(destination_identity, method, path, body) -> auth_header_bytes\<close>
  (\<open>build_auth_headers\<close> of the federation HTTP client, which is not part of the
  sources). The header is represented by the arguments it was built from, so that what was
  signed can be read back from a request.
\<close>

record auth_headers =
  destination :: "string option"
  sign_verb :: string
  url_bytes :: string
  content :: json
  destination_is :: string

definition build_auth_headers ::
  "string option \<Rightarrow> string \<Rightarrow> string \<Rightarrow> json \<Rightarrow> string \<Rightarrow> auth_headers" where
  "build_auth_headers dest m u c dest_is =
     \<lparr>destination = dest, sign_verb = m, url_bytes = u, content = c, destination_is = dest_is\<rparr>"

record request =
  verb :: http_verb
  url :: string
  payload :: json
  authorization :: "auth_headers option"

datatype http_result = Returns dict | Raises error

text \<open>
  What lies outside the handler: the remote identity servers behind the HTTP client (the
  answer may depend on how many calls were made before, so the same request can be answered
  differently the second time), the JSON parser \<open>json.loads\<close> (which raises on text
  that is not JSON) and \<open>HttpResponseException.to_synapse_error\<close>. They are parameters.
\<close>

record world =
  http :: "nat \<Rightarrow> request \<Rightarrow> http_result"
  json_loads :: "string \<Rightarrow> error + dict"
  to_synapse_error :: "int \<Rightarrow> string \<Rightarrow> string \<Rightarrow> error"

text \<open>The configuration the handler reads from the homeserver object \<open>hs\<close>.\<close>

record homeserver =
  trusted_third_party_id_servers :: "string list"
  trust_any_id_server_just_for_testing_do_not_use :: bool
  rewrite_identity_server_urls :: dict

record threepid_binding =
  user_id :: string
  medium :: string
  address :: string
  id_server :: string

text \<open>
  The state the handler changes: the persisted bindings, the outbound requests issued so
  far (oldest first) and the log records emitted (level and format string).
\<close>

record state =
  bindings :: "threepid_binding list"
  net :: "request list"
  logs :: "(level \<times> string) list"

definition logger :: "level \<Rightarrow> string \<Rightarrow> state \<Rightarrow> state" where
  "logger l m s = s\<lparr>logs := logs s @ [(l, m)]\<rparr>"

definition send :: "request \<Rightarrow> state \<Rightarrow> state" where
  "send r s = s\<lparr>net := net s @ [r]\<rparr>"

text \<open>
  Modelled from the spec: the persisted binding store (\<open>add_binding\<close>,
  \<open>remove_binding\<close>, \<open>list_id_servers\<close>), whose code is not part of the sources. A
  binding is stored once; removal deletes the binding with exactly the given four fields;
  the listing returns the hosts recorded for a user, medium and address.
\<close>

definition add_user_bound_threepid ::
  "string \<Rightarrow> string \<Rightarrow> string \<Rightarrow> string \<Rightarrow> state \<Rightarrow> state" where
  "add_user_bound_threepid u m a i s =
     (let b = \<lparr>user_id = u, medium = m, address = a, id_server = i\<rparr>
      in if b \<in> set (bindings s) then s else s\<lparr>bindings := bindings s @ [b]\<rparr>)"

definition remove_user_bound_threepid ::
  "string \<Rightarrow> string \<Rightarrow> string \<Rightarrow> string \<Rightarrow> state \<Rightarrow> state" where
  "remove_user_bound_threepid u m a i s =
     s\<lparr>bindings := removeAll \<lparr>user_id = u, medium = m, address = a, id_server = i\<rparr> (bindings s)\<rparr>"

definition get_id_servers_user_bound ::
  "string \<Rightarrow> string \<Rightarrow> string \<Rightarrow> state \<Rightarrow> string list" where
  "get_id_servers_user_bound u m a s =
     map id_server (filter (\<lambda>b. user_id b = u \<and> medium b = m \<and> address b = a) (bindings s))"

section \<open>The trust predicate\<close>

definition should_trust_id_server :: "homeserver \<Rightarrow> string \<Rightarrow> state \<Rightarrow> bool \<times> state" where
  "should_trust_id_server hs i s =
     (if i \<notin> set (trusted_third_party_id_servers hs) then
        (if trust_any_id_server_just_for_testing_do_not_use hs then
           (True, logger Warn
              ''Trusting untrustworthy ID server %r even though it isn't in the trusted id list for testing because 'use_insecure_ssl_client_just_for_testing_do_not_use' is set in the config''
              s)
         else (False, s))
      else (True, s))"

section \<open>Credential verification and bind\<close>

text \<open>
  Modelled from the spec: the exception classes of \<open>synapse.api.errors\<close>, which the
  handler imports and which are not part of the sources. The "code+message" failure shape
  is \<open>CodeMessageException\<close>; \<open>HttpResponseException\<close> and \<open>SynapseError\<close> carry a
  code and a message too and are its subclasses, so a handler for
  \<open>CodeMessageException\<close> catches all three and reads their \<open>msg\<close>.
\<close>

fun as_CodeMessageException :: "error \<Rightarrow> (int \<times> string) option" where
  "as_CodeMessageException (CodeMessageException c m) = Some (c, m)"
| "as_CodeMessageException (HttpResponseException c m r) = Some (c, m)"
| "as_CodeMessageException (SynapseError c m ec) = Some (c, m)"
| "as_CodeMessageException (KeyError k) = None"
| "as_CodeMessageException (RuntimeError m) = None"
| "as_CodeMessageException (OtherException m) = None"

text \<open>
  \<open>threepid_from_creds\<close>: \<open>id_server0\<close> is the variable \<open>id_server\<close> as read from
  the credentials, \<open>id_server1\<close> the same variable after the rewrite rule was applied to
  it. The arguments of \<open>get_json\<close> are evaluated before the call, so a missing
  \<open>sid\<close> raises before anything is sent.
\<close>

definition threepid_from_creds ::
  "homeserver \<Rightarrow> world \<Rightarrow> dict \<Rightarrow> state \<Rightarrow> (error + dict option) \<times> state" where
  "threepid_from_creds hs w creds s =
     (case (case creds ''id_server'' of Some v \<Rightarrow> Some v | None \<Rightarrow> creds ''idServer'') of
        None \<Rightarrow> (Inl (SynapseError 400 ''No id_server in creds'' None), s)
      | Some id_server0 \<Rightarrow>
     (case (case creds ''client_secret'' of Some v \<Rightarrow> Some v | None \<Rightarrow> creds ''clientSecret'') of
        None \<Rightarrow> (Inl (SynapseError 400 ''No client_secret in creds'' None), s)
      | Some client_secret \<Rightarrow>
     (let (trusted, s1) = should_trust_id_server hs id_server0 s in
      if \<not> trusted then
        (Inr None, logger Warn ''%s is not a trusted ID server: rejecting 3pid credentials'' s1)
      else
     (let id_server1 = dict_get (rewrite_identity_server_urls hs) id_server0 id_server0 in
      case creds ''sid'' of
        None \<Rightarrow> (Inl (KeyError ''sid''), s1)
      | Some sid \<Rightarrow>
     (let req = \<lparr>verb = GET,
                 url = ''https://'' @ id_server1 @ ''/_matrix/identity/api/v1/3pid/getValidated3pid'',
                 payload = JDict [(''sid'', JStr sid), (''client_secret'', JStr client_secret)],
                 authorization = None\<rparr>;
          s2 = send req s1
      in case http w (length (net s1)) req of
           Raises e \<Rightarrow>
             (case e of
                HttpResponseException c m r \<Rightarrow>
                  (Inl (to_synapse_error w c m r),
                   logger Info ''getValidated3pid failed with Matrix error: %r'' s2)
              | _ \<Rightarrow> (Inl e, s2))
         | Returns data \<Rightarrow>
             (if data ''medium'' \<noteq> None then (Inr (Some data), s2) else (Inr None, s2)))))))"

text \<open>
  Lines 112 to 118 of \<open>bind_threepid\<close>: the request that is sent. The rewritten host
  is held in a variable of its own (\<open>id_server_host\<close>).
\<close>

definition bind_request :: "homeserver \<Rightarrow> string \<Rightarrow> string \<Rightarrow> string \<Rightarrow> string \<Rightarrow> request" where
  "bind_request hs mxid sid client_secret id_server0 =
     (let id_server_host = dict_get (rewrite_identity_server_urls hs) id_server0 id_server0
      in \<lparr>verb = POST,
          url = ''https://'' @ id_server_host @ ''/_matrix/identity/api/v1/3pid/bind'',
          payload = JDict [(''sid'', JStr sid), (''client_secret'', JStr client_secret),
                           (''mxid'', JStr mxid)],
          authorization = None\<rparr>)"

text \<open>
  \<open>bind_threepid\<close>: the binding is stored under \<open>id_server0\<close>, the host as read from
  the credentials. The lookups \<open>creds["sid"]\<close>, \<open>data["medium"]\<close> and
  \<open>data["address"]\<close> stand inside the \<open>try\<close>, whose handler catches
  \<open>CodeMessageException\<close> only.
\<close>

definition bind_threepid ::
  "homeserver \<Rightarrow> world \<Rightarrow> dict \<Rightarrow> string \<Rightarrow> state \<Rightarrow> (error + dict) \<times> state" where
  "bind_threepid hs w creds mxid s =
     (let s0 = logger Debug ''binding threepid %r to %s'' s in
      case (case creds ''id_server'' of Some v \<Rightarrow> Some v | None \<Rightarrow> creds ''idServer'') of
        None \<Rightarrow> (Inl (SynapseError 400 ''No id_server in creds'' None), s0)
      | Some id_server0 \<Rightarrow>
     (case (case creds ''client_secret'' of Some v \<Rightarrow> Some v | None \<Rightarrow> creds ''clientSecret'') of
        None \<Rightarrow> (Inl (SynapseError 400 ''No client_secret in creds'' None), s0)
      | Some client_secret \<Rightarrow>
     (case creds ''sid'' of
        None \<Rightarrow> (Inl (KeyError ''sid''), s0)
      | Some sid \<Rightarrow>
     (let req = bind_request hs mxid sid client_secret id_server0;
          s1 = send req s0
      in case http w (length (net s0)) req of
           Raises e \<Rightarrow>
             (case as_CodeMessageException e of
                Some (c, m) \<Rightarrow>
                  (case json_loads w m of Inl e' \<Rightarrow> (Inl e', s1) | Inr d \<Rightarrow> (Inr d, s1))
              | None \<Rightarrow> (Inl e, s1))
         | Returns data \<Rightarrow>
             (let s2 = logger Debug ''bound threepid %r to %s'' s1 in
              case data ''medium'' of
                None \<Rightarrow> (Inl (KeyError ''medium''), s2)
              | Some med \<Rightarrow>
             (case data ''address'' of
                None \<Rightarrow> (Inl (KeyError ''address''), s2)
              | Some addr \<Rightarrow>
                  (Inr data, add_user_bound_threepid mxid med addr id_server0 s2)))))))"

section \<open>Unbind\<close>

text \<open>
  Lines 184 to 208 of \<open>try_unbind_threepid_with_id_server\<close>: the request that is sent.
  The headers are signed for \<open>id_server0\<close>, the host the function was called with; the URL
  is built from \<open>id_server1\<close>, the variable after the rewrite rule was applied.
\<close>

definition unbind_request :: "homeserver \<Rightarrow> string \<Rightarrow> string \<Rightarrow> string \<Rightarrow> string \<Rightarrow> request" where
  "unbind_request hs mxid med addr id_server0 =
     (let body = JDict [(''mxid'', JStr mxid),
                        (''threepid'', JDict [(''medium'', JStr med), (''address'', JStr addr)])];
          auth = build_auth_headers None ''POST'' ''/_matrix/identity/api/v1/3pid/unbind'' body id_server0;
          id_server1 = dict_get (rewrite_identity_server_urls hs) id_server0 id_server0
      in \<lparr>verb = POST,
          url = ''https://'' @ id_server1 @ ''/_matrix/identity/api/v1/3pid/unbind'',
          payload = body,
          authorization = Some auth\<rparr>)"

text \<open>
  The source assigns the rewritten host to the variable \<open>id_server\<close> itself (line 206),
  and the later call of \<open>remove_user_bound_threepid\<close> (line 226) reads that variable:
  the binding is removed under \<open>id_server1\<close>.
\<close>

definition try_unbind_threepid_with_id_server ::
  "homeserver \<Rightarrow> world \<Rightarrow> string \<Rightarrow> dict \<Rightarrow> string \<Rightarrow> state \<Rightarrow> (error + bool) \<times> state" where
  "try_unbind_threepid_with_id_server hs w mxid threepid id_server0 s =
     (case threepid ''medium'' of
        None \<Rightarrow> (Inl (KeyError ''medium''), s)
      | Some med \<Rightarrow>
     (case threepid ''address'' of
        None \<Rightarrow> (Inl (KeyError ''address''), s)
      | Some addr \<Rightarrow>
     (let req = unbind_request hs mxid med addr id_server0;
          id_server1 = dict_get (rewrite_identity_server_urls hs) id_server0 id_server0;
          s1 = send req s
      in case http w (length (net s)) req of
           Returns d \<Rightarrow> (Inr True, remove_user_bound_threepid mxid med addr id_server1 s1)
         | Raises e \<Rightarrow>
             (case e of
                HttpResponseException c m r \<Rightarrow>
                  (if c \<in> {400, 404, 501} then
                     (Inr False,
                      remove_user_bound_threepid mxid med addr id_server1
                        (logger Warn ''Received %d response while unbinding threepid'' s1))
                   else
                     (Inl (SynapseError 502 ''Failed to contact identity server'' None),
                      logger Error ''Failed to unbind threepid on identity server: %s'' s1))
              | _ \<Rightarrow> (Inl e, s1)))))"

text \<open>
  Lines 210 to 220 read on their own: what the per-server operation makes of the answer to
  its request. It returns true for an answer, false for the statuses 400, 404 and 501,
  raises \<open>SynapseError\<close> 502 for any other \<open>HttpResponseException\<close>, and lets any
  other exception through.
\<close>

fun unbind_outcome :: "http_result \<Rightarrow> error + bool" where
  "unbind_outcome (Returns d) = Inr True"
| "unbind_outcome (Raises (HttpResponseException c m r)) =
     (if c \<in> {400, 404, 501} then Inr False
      else Inl (SynapseError 502 ''Failed to contact identity server'' None))"
| "unbind_outcome (Raises e) = Inl e"

text \<open>
  Lines 149 to 154 of \<open>try_unbind_threepid\<close>: the identity servers to contact. A given
  \<open>id_server\<close> counts when it is truthy (present and not the empty string); otherwise the
  store is asked, which reads \<open>threepid["medium"]\<close> and \<open>threepid["address"]\<close>.
\<close>

definition id_servers_to_unbind :: "string \<Rightarrow> dict \<Rightarrow> state \<Rightarrow> error + string list" where
  "id_servers_to_unbind mxid threepid s =
     (let stored =
        (case threepid ''medium'' of
           None \<Rightarrow> Inl (KeyError ''medium'')
         | Some med \<Rightarrow>
        (case threepid ''address'' of
           None \<Rightarrow> Inl (KeyError ''address'')
         | Some addr \<Rightarrow> Inr (get_id_servers_user_bound mxid med addr s)))
      in case threepid ''id_server'' of
           None \<Rightarrow> stored
         | Some v \<Rightarrow> (if v \<noteq> [] then Inr [v] else stored))"

text \<open>
  The loop of lines 160 to 166: \<open>changed &= yield ...\<close> calls the per-server operation
  whatever \<open>changed\<close> holds; an exception raised by the call leaves the loop.
\<close>

fun unbind_each ::
  "homeserver \<Rightarrow> world \<Rightarrow> string \<Rightarrow> dict \<Rightarrow> string list \<Rightarrow> bool \<Rightarrow> state \<Rightarrow> (error + bool) \<times> state" where
  "unbind_each hs w mxid threepid [] changed s = (Inr changed, s)"
| "unbind_each hs w mxid threepid (i # rest) changed s =
     (case try_unbind_threepid_with_id_server hs w mxid threepid i s of
        (Inl e, s1) \<Rightarrow> (Inl e, s1)
      | (Inr b, s1) \<Rightarrow> unbind_each hs w mxid threepid rest (changed \<and> b) s1)"

definition try_unbind_threepid ::
  "homeserver \<Rightarrow> world \<Rightarrow> string \<Rightarrow> dict \<Rightarrow> state \<Rightarrow> (error + bool) \<times> state" where
  "try_unbind_threepid hs w mxid threepid s =
     (case id_servers_to_unbind mxid threepid s of
        Inl e \<Rightarrow> (Inl e, s)
      | Inr id_servers \<Rightarrow>
          (if id_servers = [] then (Inr False, s)
           else unbind_each hs w mxid threepid id_servers True s))"

section \<open>Token requests\<close>

text \<open>\<open>params.update(kwargs)\<close>: each key is overwritten in place or appended.\<close>

definition dict_update :: "(string \<times> json) list \<Rightarrow> (string \<times> json) list \<Rightarrow> (string \<times> json) list" where
  "dict_update kw d = fold (\<lambda>(k, v). AList.update k v) kw d"

definition requestEmailToken ::
  "homeserver \<Rightarrow> world \<Rightarrow> string \<Rightarrow> string \<Rightarrow> string \<Rightarrow> json \<Rightarrow> string option \<Rightarrow> state
     \<Rightarrow> (error + dict) \<times> state" where
  "requestEmailToken hs w id_server0 email client_secret send_attempt next_link s =
     (let (trusted, s1) = should_trust_id_server hs id_server0 s in
      if \<not> trusted then
        (Inl (SynapseError 400 (''Untrusted ID server '' @ [CHR 0x27] @ id_server0 @ [CHR 0x27])
                (Some SERVER_NOT_TRUSTED)), s1)
      else
     (let params = [(''email'', JStr email), (''client_secret'', JStr client_secret),
                    (''send_attempt'', send_attempt)];
          id_server1 = dict_get (rewrite_identity_server_urls hs) id_server0 id_server0;
          params1 = (case next_link of
                       None \<Rightarrow> params
                     | Some l \<Rightarrow> (if l \<noteq> [] then dict_update [(''next_link'', JStr l)] params
                                  else params));
          req = \<lparr>verb = POST,
                 url = ''https://'' @ id_server1 @ ''/_matrix/identity/api/v1/validate/email/requestToken'',
                 payload = JDict params1,
                 authorization = None\<rparr>;
          s2 = send req s1
      in case http w (length (net s1)) req of
           Returns data \<Rightarrow> (Inr data, s2)
         | Raises e \<Rightarrow>
             (case e of
                HttpResponseException c m r \<Rightarrow>
                  (Inl (to_synapse_error w c m r), logger Info ''Proxied requestToken failed: %r'' s2)
              | _ \<Rightarrow> (Inl e, s2))))"

text \<open>
  \<open>requestMsisdnToken\<close> applies the rewrite rules at line 273 (giving \<open>id_server1\<close>)
  and once more at lines 284 and 285 (giving \<open>id_server2\<close>, which is dialed).
\<close>

definition requestMsisdnToken ::
  "homeserver \<Rightarrow> world \<Rightarrow> string \<Rightarrow> string \<Rightarrow> string \<Rightarrow> string \<Rightarrow> json \<Rightarrow> (string \<times> json) list
     \<Rightarrow> state \<Rightarrow> (error + dict) \<times> state" where
  "requestMsisdnToken hs w id_server0 country phone_number client_secret send_attempt kwargs s =
     (let (trusted, s1) = should_trust_id_server hs id_server0 s in
      if \<not> trusted then
        (Inl (SynapseError 400 (''Untrusted ID server '' @ [CHR 0x27] @ id_server0 @ [CHR 0x27])
                (Some SERVER_NOT_TRUSTED)), s1)
      else
     (let id_server1 = dict_get (rewrite_identity_server_urls hs) id_server0 id_server0;
          params = [(''country'', JStr country), (''phone_number'', JStr phone_number),
                    (''client_secret'', JStr client_secret), (''send_attempt'', send_attempt)];
          params1 = dict_update kwargs params;
          id_server2 = (case rewrite_identity_server_urls hs id_server1 of
                          Some v \<Rightarrow> v
                        | None \<Rightarrow> id_server1);
          req = \<lparr>verb = POST,
                 url = ''https://'' @ id_server2 @ ''/_matrix/identity/api/v1/validate/msisdn/requestToken'',
                 payload = JDict params1,
                 authorization = None\<rparr>;
          s2 = send req s1
      in case http w (length (net s1)) req of
           Returns data \<Rightarrow> (Inr data, s2)
         | Raises e \<Rightarrow>
             (case e of
                HttpResponseException c m r \<Rightarrow>
                  (Inl (to_synapse_error w c m r), logger Info ''Proxied requestToken failed: %r'' s2)
              | _ \<Rightarrow> (Inl e, s2))))"

section \<open>The engine factory of synapse/storage/engines\<close>

text \<open>
  Each engine class is imported from its module; when the import fails (the driver is not
  installed) the name is bound to the class \<open>dummy_engine\<close> returns, whose constructor
  raises. Which imports succeed is a parameter.
\<close>

record installed =
  postgres_importable :: bool
  psycopg_importable :: bool
  sqlite_importable :: bool

datatype engine_class = Imported string | Dummy string string

definition dummy_engine :: "string \<Rightarrow> string \<Rightarrow> engine_class" where
  "dummy_engine name module = Dummy name module"

definition PostgresEngine :: "installed \<Rightarrow> engine_class" where
  "PostgresEngine inst =
     (if postgres_importable inst then Imported ''PostgresEngine''
      else dummy_engine ''PostgresEngine'' ''psycopg2'')"

definition PsycopgEngine :: "installed \<Rightarrow> engine_class" where
  "PsycopgEngine inst =
     (if psycopg_importable inst then Imported ''PsycopgEngine''
      else dummy_engine ''PsycopgEngine'' ''psycopg'')"

definition Sqlite3Engine :: "installed \<Rightarrow> engine_class" where
  "Sqlite3Engine inst =
     (if sqlite_importable inst then Imported ''Sqlite3Engine''
      else dummy_engine ''Sqlite3Engine'' ''sqlite3'')"

text \<open>
  Modelled from the spec: the engine classes of \<open>postgres.py\<close>, \<open>psycopg.py\<close> and
  \<open>sqlite.py\<close> are not part of the sources; an imported class builds an engine from the
  configuration. The dummy class raises in \<open>__new__\<close>, as the source has it.
\<close>

record engine =
  engine_name :: string
  engine_config :: dict

definition instantiate :: "engine_class \<Rightarrow> dict \<Rightarrow> error + engine" where
  "instantiate c database_config =
     (case c of
        Imported n \<Rightarrow> Inr \<lparr>engine_name = n, engine_config = database_config\<rparr>
      | Dummy name module \<Rightarrow>
          Inl (RuntimeError (''Cannot create '' @ name @ ''Engine -- '' @ module
                               @ '' module is not installed'')))"

definition create_engine :: "installed \<Rightarrow> dict \<Rightarrow> error + engine" where
  "create_engine inst database_config =
     (case database_config ''name'' of
        None \<Rightarrow> Inl (KeyError ''name'')
      | Some name \<Rightarrow>
          (if name = ''sqlite3'' then instantiate (Sqlite3Engine inst) database_config
           else if name = ''psycopg2'' then instantiate (PostgresEngine inst) database_config
           else if name = ''psycopg'' then instantiate (PsycopgEngine inst) database_config
           else Inl (RuntimeError (''Unsupported database engine '' @ [CHR 0x27] @ name @ [CHR 0x27]))))"

section \<open>Scenarios\<close>

text \<open>
  Concrete configurations, worlds and states on which the handler is evaluated: a
  homeserver that trusts \<open>id.example\<close>, the same with a rewrite rule for it, and a world
  whose identity servers give one fixed answer and whose JSON parser knows one error body.
\<close>

definition s_init :: state where
  "s_init = \<lparr>bindings = [], net = [], logs = []\<rparr>"

definition hs_plain :: homeserver where
  "hs_plain = \<lparr>trusted_third_party_id_servers = [''id.example''],
               trust_any_id_server_just_for_testing_do_not_use = False,
               rewrite_identity_server_urls = Map.empty\<rparr>"

definition hs_rewrite :: homeserver where
  "hs_rewrite = \<lparr>trusted_third_party_id_servers = [''id.example''],
                 trust_any_id_server_just_for_testing_do_not_use = False,
                 rewrite_identity_server_urls = [''id.example'' \<mapsto> ''internal.example'']\<rparr>"

definition hs_chain :: homeserver where
  "hs_chain = \<lparr>trusted_third_party_id_servers = [''a.example''],
               trust_any_id_server_just_for_testing_do_not_use = False,
               rewrite_identity_server_urls =
                 [''a.example'' \<mapsto> ''b.example'', ''b.example'' \<mapsto> ''c.example'']\<rparr>"

definition alice_email :: dict where
  "alice_email = [''medium'' \<mapsto> ''email'', ''address'' \<mapsto> ''alice@example.com'']"

definition alice_creds :: dict where
  "alice_creds = [''id_server'' \<mapsto> ''id.example'', ''client_secret'' \<mapsto> ''s3cr3t'', ''sid'' \<mapsto> ''abc'']"

definition alice_binding :: "string \<Rightarrow> threepid_binding" where
  "alice_binding i = \<lparr>user_id = ''@alice:home.example'', medium = ''email'',
                       address = ''alice@example.com'', id_server = i\<rparr>"

definition s_bound :: "string list \<Rightarrow> state" where
  "s_bound hosts = \<lparr>bindings = map alice_binding hosts, net = [], logs = []\<rparr>"

definition w_answer :: "http_result \<Rightarrow> world" where
  \<open>w_answer r =
     \<lparr>http = (\<lambda>n q. r),
      json_loads = (\<lambda>t. if t = ''{"errcode":"M_FOO","error":"no"}''
                         then Inr [''errcode'' \<mapsto> ''M_FOO'', ''error'' \<mapsto> ''no'']
                         else Inl (OtherException ''JSONDecodeError'')),
      to_synapse_error = (\<lambda>c m r. SynapseError c m None)\<rparr>\<close>

text \<open>
  A world in which the unbind endpoint of one host answers with an HTTP error status and
  every other request is answered.
\<close>

definition w_fail_for :: "int \<Rightarrow> string \<Rightarrow> world" where
  "w_fail_for c host =
     \<lparr>http = (\<lambda>n q. if url q = ''https://'' @ host @ ''/_matrix/identity/api/v1/3pid/unbind''
                     then Raises (HttpResponseException c ''error'' [])
                     else Returns Map.empty),
      json_loads = (\<lambda>t. Inl (OtherException ''JSONDecodeError'')),
      to_synapse_error = (\<lambda>c m r. SynapseError c m None)\<rparr>"

section \<open>Properties of the trust predicate\<close>

text \<open>
  C7. \<open>should_trust_id_server\<close> returns true, and emits nothing, for every host of
  \<open>trusted_third_party_id_servers\<close>; for a host outside the list it returns true and
  emits one warning when the testing override is set, and returns false when it is unset.
  With an empty list and the override unset it returns false for every host. The function
  has no error result: it is total and returns a boolean on every input.
\<close>

theorem should_trust_id_server_spec:
  "(i \<in> set (trusted_third_party_id_servers hs) \<longrightarrow> should_trust_id_server hs i s = (True, s)) \<and>
   (i \<notin> set (trusted_third_party_id_servers hs) \<and> trust_any_id_server_just_for_testing_do_not_use hs \<longrightarrow>
      fst (should_trust_id_server hs i s) = True \<and>
      bindings (snd (should_trust_id_server hs i s)) = bindings s \<and>
      net (snd (should_trust_id_server hs i s)) = net s \<and>
      (\<exists>m. logs (snd (should_trust_id_server hs i s)) = logs s @ [(Warn, m)])) \<and>
   (i \<notin> set (trusted_third_party_id_servers hs) \<and> \<not> trust_any_id_server_just_for_testing_do_not_use hs \<longrightarrow>
      should_trust_id_server hs i s = (False, s)) \<and>
   (trusted_third_party_id_servers hs = [] \<and> \<not> trust_any_id_server_just_for_testing_do_not_use hs \<longrightarrow>
      fst (should_trust_id_server hs i s) = False)"
  by (simp add: should_trust_id_server_def logger_def)

theorem should_trust_id_server_spec_witness:
  "should_trust_id_server hs_plain ''id.example'' s_init = (True, s_init) \<and>
   should_trust_id_server hs_plain ''evil.example'' s_init = (False, s_init) \<and>
   fst (should_trust_id_server
          (hs_plain\<lparr>trust_any_id_server_just_for_testing_do_not_use := True\<rparr>)
          ''evil.example'' s_init) = True \<and>
   length (logs (snd (should_trust_id_server
          (hs_plain\<lparr>trust_any_id_server_just_for_testing_do_not_use := True\<rparr>)
          ''evil.example'' s_init))) = 1 \<and>
   fst (should_trust_id_server
          (hs_plain\<lparr>trusted_third_party_id_servers := []\<rparr>) ''id.example'' s_init) = False"
  using should_trust_id_server_spec [of "''id.example''" hs_plain s_init]
    should_trust_id_server_spec [of "''evil.example''" hs_plain s_init]
    should_trust_id_server_spec
      [of "''evil.example''" "hs_plain\<lparr>trust_any_id_server_just_for_testing_do_not_use := True\<rparr>" s_init]
    should_trust_id_server_spec
      [of "''id.example''" "hs_plain\<lparr>trusted_third_party_id_servers := []\<rparr>" s_init]
  by (auto simp add: hs_plain_def s_init_def)

section \<open>Properties of credential verification and bind\<close>

text \<open>
  C6. A credential object that has neither \<open>id_server\<close> nor \<open>idServer\<close>, or neither
  \<open>client_secret\<close> nor \<open>clientSecret\<close>, makes \<open>threepid_from_creds\<close> and
  \<open>bind_threepid\<close> raise \<open>SynapseError\<close> with status 400. No request is sent and no
  binding is stored: \<open>threepid_from_creds\<close> leaves the state as it was, and
  \<open>bind_threepid\<close> has only written its debug log record.
\<close>

theorem missing_creds_fields_rejected:
  assumes "(creds ''id_server'' = None \<and> creds ''idServer'' = None) \<or>
           (creds ''client_secret'' = None \<and> creds ''clientSecret'' = None)"
  shows "(\<exists>m. threepid_from_creds hs w creds s = (Inl (SynapseError 400 m None), s)) \<and>
         (\<exists>m. fst (bind_threepid hs w creds mxid s) = Inl (SynapseError 400 m None)) \<and>
         net (snd (bind_threepid hs w creds mxid s)) = net s \<and>
         bindings (snd (bind_threepid hs w creds mxid s)) = bindings s"
  using assms
  by (auto simp add: threepid_from_creds_def bind_threepid_def logger_def Let_def
        split: option.splits)

theorem missing_creds_fields_rejected_witness:
  "[''client_secret'' \<mapsto> ''s3cr3t'', ''sid'' \<mapsto> ''abc''] ''id_server'' = None \<and>
   [''client_secret'' \<mapsto> ''s3cr3t'', ''sid'' \<mapsto> ''abc''] ''idServer'' = None \<and>
   threepid_from_creds hs_plain (w_answer (Returns Map.empty))
      [''client_secret'' \<mapsto> ''s3cr3t'', ''sid'' \<mapsto> ''abc''] s_init
     = (Inl (SynapseError 400 ''No id_server in creds'' None), s_init) \<and>
   fst (bind_threepid hs_plain (w_answer (Returns Map.empty))
      [''client_secret'' \<mapsto> ''s3cr3t'', ''sid'' \<mapsto> ''abc''] ''@alice:home.example'' s_init)
     = Inl (SynapseError 400 ''No id_server in creds'' None) \<and>
   net (snd (bind_threepid hs_plain (w_answer (Returns Map.empty))
      [''client_secret'' \<mapsto> ''s3cr3t'', ''sid'' \<mapsto> ''abc''] ''@alice:home.example'' s_init)) = []"
  using missing_creds_fields_rejected
    [of "[''client_secret'' \<mapsto> ''s3cr3t'', ''sid'' \<mapsto> ''abc'']" hs_plain
        "w_answer (Returns Map.empty)" s_init "''@alice:home.example''"]
  by (simp add: threepid_from_creds_def bind_threepid_def logger_def s_init_def)




text \<open>
  A successful bind returns the answer, sends its request to the rewritten host and stores
  the binding under the host as read from the credentials.
\<close>

lemma bind_stores_under_logical_host:
  assumes "creds ''id_server'' = Some i \<or> (creds ''id_server'' = None \<and> creds ''idServer'' = Some i)"
      and "creds ''client_secret'' = Some cs \<or>
           (creds ''client_secret'' = None \<and> creds ''clientSecret'' = Some cs)"
      and "creds ''sid'' = Some sid"
      and "http w (length (net s)) (bind_request hs mxid sid cs i) = Returns data"
      and "data ''medium'' = Some med" and "data ''address'' = Some addr"
  shows "fst (bind_threepid hs w creds mxid s) = Inr data \<and>
         bindings (snd (bind_threepid hs w creds mxid s))
           = bindings (add_user_bound_threepid mxid med addr i s) \<and>
         map url (net (snd (bind_threepid hs w creds mxid s)))
           = map url (net s) @ [''https://'' @ dict_get (rewrite_identity_server_urls hs) i i
                                  @ ''/_matrix/identity/api/v1/3pid/bind'']"
proof -
  from assms(1) have ids: "(case creds ''id_server'' of Some v \<Rightarrow> Some v | None \<Rightarrow> creds ''idServer'') = Some i"
    by auto
  from assms(2) have cs: "(case creds ''client_secret'' of Some v \<Rightarrow> Some v | None \<Rightarrow> creds ''clientSecret'') = Some cs"
    by auto
  show ?thesis
    using assms(4,5,6)
    by (simp add: bind_threepid_def ids cs assms(3) logger_def send_def bind_request_def Let_def
          add_user_bound_threepid_def)
qed

text \<open>
  C8. For an identity server the trust predicate rejects, the two trust-gated flows fail
  in different shapes. \<open>threepid_from_creds\<close>, given credentials that name the server
  and carry a client secret, returns \<open>None\<close> and raises nothing;
  \<open>requestEmailToken\<close> and \<open>requestMsisdnToken\<close> raise \<open>SynapseError\<close> with
  status 400 and the code \<open>SERVER_NOT_TRUSTED\<close>. None of the three sends a request.
\<close>

theorem untrusted_server_two_shapes:
  assumes "fst (should_trust_id_server hs i s) = False"
      and "creds ''id_server'' = Some i \<or> (creds ''id_server'' = None \<and> creds ''idServer'' = Some i)"
      and "creds ''client_secret'' \<noteq> None \<or> creds ''clientSecret'' \<noteq> None"
  shows "fst (threepid_from_creds hs w creds s) = Inr None \<and>
         net (snd (threepid_from_creds hs w creds s)) = net s \<and>
         fst (requestEmailToken hs w i email client_secret send_attempt next_link s)
           = Inl (SynapseError 400 (''Untrusted ID server '' @ [CHR 0x27] @ i @ [CHR 0x27])
                    (Some SERVER_NOT_TRUSTED)) \<and>
         net (snd (requestEmailToken hs w i email client_secret send_attempt next_link s)) = net s \<and>
         fst (requestMsisdnToken hs w i country phone_number client_secret send_attempt kwargs s)
           = Inl (SynapseError 400 (''Untrusted ID server '' @ [CHR 0x27] @ i @ [CHR 0x27])
                    (Some SERVER_NOT_TRUSTED)) \<and>
         net (snd (requestMsisdnToken hs w i country phone_number client_secret send_attempt kwargs s)) = net s"
proof -
  from assms(1) have u: "should_trust_id_server hs i s = (False, s)"
    by (auto simp add: should_trust_id_server_def split: if_splits)
  from assms(2) have ids: "(case creds ''id_server'' of Some v \<Rightarrow> Some v | None \<Rightarrow> creds ''idServer'') = Some i"
    by auto
  from assms(3) have
    "\<exists>cs. (case creds ''client_secret'' of Some v \<Rightarrow> Some v | None \<Rightarrow> creds ''clientSecret'') = Some cs"
    by (cases "creds ''client_secret''") auto
  then obtain cs where
    cs: "(case creds ''client_secret'' of Some v \<Rightarrow> Some v | None \<Rightarrow> creds ''clientSecret'') = Some cs"
    by blast
  have a: "threepid_from_creds hs w creds s =
      (Inr None, logger Warn ''%s is not a trusted ID server: rejecting 3pid credentials'' s)"
    by (simp add: threepid_from_creds_def ids cs u)
  have b: "requestEmailToken hs w i email client_secret send_attempt next_link s
      = (Inl (SynapseError 400 (''Untrusted ID server '' @ [CHR 0x27] @ i @ [CHR 0x27])
                    (Some SERVER_NOT_TRUSTED)), s)"
    by (simp add: requestEmailToken_def u)
  have c: "requestMsisdnToken hs w i country phone_number client_secret send_attempt kwargs s
      = (Inl (SynapseError 400 (''Untrusted ID server '' @ [CHR 0x27] @ i @ [CHR 0x27])
                    (Some SERVER_NOT_TRUSTED)), s)"
    by (simp add: requestMsisdnToken_def u)
  show ?thesis by (simp add: a b c logger_def)
qed

theorem untrusted_server_two_shapes_witness:
  "fst (should_trust_id_server hs_plain ''evil.example'' s_init) = False \<and>
   fst (threepid_from_creds hs_plain (w_answer (Returns Map.empty))
          [''id_server'' \<mapsto> ''evil.example'', ''client_secret'' \<mapsto> ''s3cr3t'', ''sid'' \<mapsto> ''abc'']
          s_init) = Inr None \<and>
   fst (requestEmailToken hs_plain (w_answer (Returns Map.empty)) ''evil.example''
          ''alice@example.com'' ''s3cr3t'' (JInt 1) None s_init)
     = Inl (SynapseError 400 (''Untrusted ID server 'evil.example'' @ [CHR 0x27]) (Some SERVER_NOT_TRUSTED)) \<and>
   net (snd (requestMsisdnToken hs_plain (w_answer (Returns Map.empty)) ''evil.example''
          ''GB'' ''07700900000'' ''s3cr3t'' (JInt 1) [] s_init)) = []"
  using untrusted_server_two_shapes
    [of hs_plain "''evil.example''" s_init
        "[''id_server'' \<mapsto> ''evil.example'', ''client_secret'' \<mapsto> ''s3cr3t'', ''sid'' \<mapsto> ''abc'']"
        "w_answer (Returns Map.empty)" "''alice@example.com''" "''s3cr3t''" "JInt 1" None
        "''GB''" "''07700900000''" "[]"]
  by (simp add: should_trust_id_server_def hs_plain_def s_init_def)

text \<open>
  C9. Neither function checks that \<open>sid\<close> is present. For credentials that hold an
  identity server and a client secret (under either spelling) and no \<open>sid\<close>,
  \<open>bind_threepid\<close> always, and \<open>threepid_from_creds\<close> when the server is trusted,
  ends with the \<open>KeyError\<close> of the lookup \<open>creds["sid"]\<close>, which is not a
  \<open>SynapseError\<close>; no request is sent.
\<close>

theorem missing_sid_raises_KeyError:
  assumes "creds ''sid'' = None"
      and "creds ''id_server'' = Some i \<or> (creds ''id_server'' = None \<and> creds ''idServer'' = Some i)"
      and "creds ''client_secret'' \<noteq> None \<or> creds ''clientSecret'' \<noteq> None"
  shows "(fst (should_trust_id_server hs i s) \<longrightarrow>
            fst (threepid_from_creds hs w creds s) = Inl (KeyError ''sid'') \<and>
            net (snd (threepid_from_creds hs w creds s)) = net s) \<and>
         fst (bind_threepid hs w creds mxid s) = Inl (KeyError ''sid'') \<and>
         net (snd (bind_threepid hs w creds mxid s)) = net s \<and>
         bindings (snd (bind_threepid hs w creds mxid s)) = bindings s"
proof -
  from assms(2) have ids: "(case creds ''id_server'' of Some v \<Rightarrow> Some v | None \<Rightarrow> creds ''idServer'') = Some i"
    by auto
  from assms(3) have
    "\<exists>cs. (case creds ''client_secret'' of Some v \<Rightarrow> Some v | None \<Rightarrow> creds ''clientSecret'') = Some cs"
    by (cases "creds ''client_secret''") auto
  then obtain cs where
    cs: "(case creds ''client_secret'' of Some v \<Rightarrow> Some v | None \<Rightarrow> creds ''clientSecret'') = Some cs"
    by blast
  have a: "fst (threepid_from_creds hs w creds s) = Inl (KeyError ''sid'') \<and>
           net (snd (threepid_from_creds hs w creds s)) = net s"
    if "fst (should_trust_id_server hs i s)"
    using that
    by (auto simp add: threepid_from_creds_def ids cs assms(1) should_trust_id_server_def
          logger_def split: if_splits)
  have b: "bind_threepid hs w creds mxid s
             = (Inl (KeyError ''sid''), logger Debug ''binding threepid %r to %s'' s)"
    by (simp add: bind_threepid_def ids cs assms(1))
  show ?thesis using a by (simp add: b logger_def)
qed

theorem missing_sid_raises_KeyError_witness:
  "fst (should_trust_id_server hs_plain ''id.example'' s_init) \<and>
   fst (threepid_from_creds hs_plain (w_answer (Returns Map.empty))
          [''idServer'' \<mapsto> ''id.example'', ''clientSecret'' \<mapsto> ''s3cr3t''] s_init)
     = Inl (KeyError ''sid'') \<and>
   fst (bind_threepid hs_plain (w_answer (Returns Map.empty))
          [''idServer'' \<mapsto> ''id.example'', ''clientSecret'' \<mapsto> ''s3cr3t'']
          ''@alice:home.example'' s_init)
     = Inl (KeyError ''sid'')"
  using missing_sid_raises_KeyError
    [of "[''idServer'' \<mapsto> ''id.example'', ''clientSecret'' \<mapsto> ''s3cr3t'']" "''id.example''"
        hs_plain s_init "w_answer (Returns Map.empty)" "''@alice:home.example''"]
  by (simp add: should_trust_id_server_def hs_plain_def)

section \<open>Properties of unbind\<close>

text \<open>
  The request of the per-server operation is signed for the host the operation was called
  with and sent to the rewritten host.
\<close>

lemma unbind_request_hosts:
  "map_option destination_is (authorization (unbind_request hs mxid med addr i)) = Some i \<and>
   url (unbind_request hs mxid med addr i)
     = ''https://'' @ dict_get (rewrite_identity_server_urls hs) i i
         @ ''/_matrix/identity/api/v1/3pid/unbind''"
  by (simp add: unbind_request_def Let_def build_auth_headers_def)

text \<open>
  For a threepid that holds medium and address, the per-server operation sends exactly one
  request and its result is \<open>unbind_outcome\<close> of the answer. When it returns, the
  binding it removes from the store is the one of the rewritten host; when it raises, the
  store is as before.
\<close>

lemma unbind_one_result:
  assumes "threepid ''medium'' = Some med" and "threepid ''address'' = Some addr"
  shows "fst (try_unbind_threepid_with_id_server hs w mxid threepid i s)
           = unbind_outcome (http w (length (net s)) (unbind_request hs mxid med addr i))"
  using assms
  by (simp add: try_unbind_threepid_with_id_server_def Let_def
        split: http_result.splits error.splits)

lemma unbind_one_net:
  assumes "threepid ''medium'' = Some med" and "threepid ''address'' = Some addr"
  shows "net (snd (try_unbind_threepid_with_id_server hs w mxid threepid i s))
           = net s @ [unbind_request hs mxid med addr i]"
  using assms
  by (simp add: try_unbind_threepid_with_id_server_def Let_def send_def logger_def
        remove_user_bound_threepid_def split: http_result.splits error.splits)

lemma unbind_one_bindings:
  assumes "threepid ''medium'' = Some med" and "threepid ''address'' = Some addr"
  shows "bindings (snd (try_unbind_threepid_with_id_server hs w mxid threepid i s))
           = (case unbind_outcome (http w (length (net s)) (unbind_request hs mxid med addr i)) of
                Inl e \<Rightarrow> bindings s
              | Inr b \<Rightarrow>
                  removeAll \<lparr>user_id = mxid, medium = med, address = addr,
                             id_server = dict_get (rewrite_identity_server_urls hs) i i\<rparr>
                    (bindings s))"
  using assms
  by (simp add: try_unbind_threepid_with_id_server_def Let_def send_def logger_def
        remove_user_bound_threepid_def split: http_result.splits error.splits)

text \<open>
  C1. Evaluation of bind and of the per-server unbind under the rewrite rule
  \<open>id.example \<mapsto> internal.example\<close>. Bind sends to \<open>internal.example\<close> and stores
  the binding under \<open>id.example\<close>. The unbind of \<open>id.example\<close> is signed for
  \<open>id.example\<close> and sent to \<open>internal.example\<close>; it returns true, and the binding
  stored under \<open>id.example\<close> is still there, because the store was asked to remove the
  binding of \<open>internal.example\<close>: of two bindings, one under each host, the one under
  \<open>internal.example\<close> is the one removed.
\<close>

theorem unbind_removes_under_rewritten_host:
  "fst (bind_threepid hs_rewrite (w_answer (Returns alice_email)) alice_creds
          ''@alice:home.example'' s_init) = Inr alice_email \<and>
   bindings (snd (bind_threepid hs_rewrite (w_answer (Returns alice_email)) alice_creds
          ''@alice:home.example'' s_init)) = [alice_binding ''id.example''] \<and>
   map url (net (snd (bind_threepid hs_rewrite (w_answer (Returns alice_email)) alice_creds
          ''@alice:home.example'' s_init)))
     = [''https://internal.example/_matrix/identity/api/v1/3pid/bind''] \<and>
   fst (try_unbind_threepid_with_id_server hs_rewrite (w_answer (Returns Map.empty))
          ''@alice:home.example'' alice_email ''id.example'' (s_bound [''id.example''])) = Inr True \<and>
   map url (net (snd (try_unbind_threepid_with_id_server hs_rewrite (w_answer (Returns Map.empty))
          ''@alice:home.example'' alice_email ''id.example'' (s_bound [''id.example'']))))
     = [''https://internal.example/_matrix/identity/api/v1/3pid/unbind''] \<and>
   map (map_option destination_is \<circ> authorization)
       (net (snd (try_unbind_threepid_with_id_server hs_rewrite (w_answer (Returns Map.empty))
          ''@alice:home.example'' alice_email ''id.example'' (s_bound [''id.example'']))))
     = [Some ''id.example''] \<and>
   bindings (snd (try_unbind_threepid_with_id_server hs_rewrite (w_answer (Returns Map.empty))
          ''@alice:home.example'' alice_email ''id.example'' (s_bound [''id.example''])))
     = [alice_binding ''id.example''] \<and>
   bindings (snd (try_unbind_threepid_with_id_server hs_rewrite (w_answer (Returns Map.empty))
          ''@alice:home.example'' alice_email ''id.example''
          (s_bound [''id.example'', ''internal.example''])))
     = [alice_binding ''id.example'']"
  by (simp add: bind_threepid_def bind_request_def try_unbind_threepid_with_id_server_def
        unbind_request_def Let_def build_auth_headers_def dict_get_def hs_rewrite_def w_answer_def
        alice_creds_def alice_email_def alice_binding_def s_init_def s_bound_def logger_def send_def
        add_user_bound_threepid_def remove_user_bound_threepid_def)

text \<open>
  C2. Evaluation of the per-server unbind on the answers 404 and 500. On 404 it returns
  false and logs one warning; on 500 it raises \<open>SynapseError\<close> 502, logs one error and
  leaves the store as it was. Under the rewrite rule \<open>id.example \<mapsto> internal.example\<close>
  the binding of \<open>id.example\<close> is still stored after the 404 and after a successful
  answer; without a rewrite rule it is removed.
\<close>

theorem unbind_unsupported_keeps_binding_under_rewrite:
  "fst (try_unbind_threepid_with_id_server hs_rewrite
          (w_answer (Raises (HttpResponseException 404 ''Not Found'' [])))
          ''@alice:home.example'' alice_email ''id.example'' (s_bound [''id.example''])) = Inr False \<and>
   map fst (logs (snd (try_unbind_threepid_with_id_server hs_rewrite
          (w_answer (Raises (HttpResponseException 404 ''Not Found'' [])))
          ''@alice:home.example'' alice_email ''id.example'' (s_bound [''id.example''])))) = [Warn] \<and>
   bindings (snd (try_unbind_threepid_with_id_server hs_rewrite
          (w_answer (Raises (HttpResponseException 404 ''Not Found'' [])))
          ''@alice:home.example'' alice_email ''id.example'' (s_bound [''id.example''])))
     = [alice_binding ''id.example''] \<and>
   bindings (snd (try_unbind_threepid_with_id_server hs_rewrite
          (w_answer (Returns Map.empty))
          ''@alice:home.example'' alice_email ''id.example'' (s_bound [''id.example''])))
     = [alice_binding ''id.example''] \<and>
   bindings (snd (try_unbind_threepid_with_id_server hs_plain
          (w_answer (Raises (HttpResponseException 404 ''Not Found'' [])))
          ''@alice:home.example'' alice_email ''id.example'' (s_bound [''id.example''])))
     = [] \<and>
   try_unbind_threepid_with_id_server hs_rewrite
          (w_answer (Raises (HttpResponseException 500 ''Internal Server Error'' [])))
          ''@alice:home.example'' alice_email ''id.example'' (s_bound [''id.example''])
     = (Inl (SynapseError 502 ''Failed to contact identity server'' None),
        (s_bound [''id.example''])
          \<lparr>net := [unbind_request hs_rewrite ''@alice:home.example'' ''email'' ''alice@example.com''
                     ''id.example''],
           logs := [(Error, ''Failed to unbind threepid on identity server: %s'')]\<rparr>)"
  by (simp add: try_unbind_threepid_with_id_server_def
        unbind_request_def Let_def build_auth_headers_def dict_get_def hs_rewrite_def hs_plain_def
        w_answer_def alice_email_def alice_binding_def s_bound_def logger_def send_def
        remove_user_bound_threepid_def)

text \<open>
  The loop over the identity servers. While every attempt returns, the next host is
  attempted and the results are combined by conjunction; the first attempt that raises
  ends the loop with its error.
\<close>

lemma unbind_each_all_return:
  assumes med: "threepid ''medium'' = Some med" and addr: "threepid ''address'' = Some addr"
      and ret: "\<forall>k<length hosts. \<exists>b. unbind_outcome
                  (http w (length (net s) + k) (unbind_request hs mxid med addr (hosts ! k))) = Inr b"
  shows "fst (unbind_each hs w mxid threepid hosts c s)
           = Inr (c \<and> (\<forall>k<length hosts. unbind_outcome
                  (http w (length (net s) + k) (unbind_request hs mxid med addr (hosts ! k))) = Inr True)) \<and>
         net (snd (unbind_each hs w mxid threepid hosts c s))
           = net s @ map (unbind_request hs mxid med addr) hosts"
  using ret
proof (induction hosts arbitrary: c s)
  case Nil
  show ?case by simp
next
  case (Cons h rest)
  obtain r s1 where step: "try_unbind_threepid_with_id_server hs w mxid threepid h s = (r, s1)"
    by (cases "try_unbind_threepid_with_id_server hs w mxid threepid h s")
  have r: "r = unbind_outcome (http w (length (net s)) (unbind_request hs mxid med addr h))"
    using unbind_one_result [OF med addr, of hs w mxid h s] step by simp
  have n1: "net s1 = net s @ [unbind_request hs mxid med addr h]"
    using unbind_one_net [OF med addr, of hs w mxid h s] step by simp
  from Cons.prems obtain b where b: "r = Inr b"
    unfolding r by (auto simp add: All_less_Suc2)
  have tail: "\<forall>k<length rest. \<exists>b. unbind_outcome
                  (http w (length (net s1) + k) (unbind_request hs mxid med addr (rest ! k))) = Inr b"
    using Cons.prems by (simp add: All_less_Suc2 n1)
  have unfold: "unbind_each hs w mxid threepid (h # rest) c s
                  = unbind_each hs w mxid threepid rest (c \<and> b) s1"
    by (simp add: step b)
  have head: "(unbind_outcome (http w (length (net s)) (unbind_request hs mxid med addr h)) = Inr True) = b"
    using r b by auto
  show ?case
    unfolding unfold using Cons.IH [OF tail, of "c \<and> b"] head
    by (simp add: All_less_Suc2 n1)
qed

lemma unbind_each_first_raise:
  assumes med: "threepid ''medium'' = Some med" and addr: "threepid ''address'' = Some addr"
      and j: "j < length hosts"
      and before: "\<forall>k<j. \<exists>b. unbind_outcome
                  (http w (length (net s) + k) (unbind_request hs mxid med addr (hosts ! k))) = Inr b"
      and raise: "unbind_outcome
                  (http w (length (net s) + j) (unbind_request hs mxid med addr (hosts ! j))) = Inl e"
  shows "fst (unbind_each hs w mxid threepid hosts c s) = Inl e \<and>
         net (snd (unbind_each hs w mxid threepid hosts c s))
           = net s @ map (unbind_request hs mxid med addr) (take (Suc j) hosts)"
  using j before raise
proof (induction hosts arbitrary: c s j)
  case Nil
  then show ?case by simp
next
  case (Cons h rest)
  obtain r s1 where step: "try_unbind_threepid_with_id_server hs w mxid threepid h s = (r, s1)"
    by (cases "try_unbind_threepid_with_id_server hs w mxid threepid h s")
  have r: "r = unbind_outcome (http w (length (net s)) (unbind_request hs mxid med addr h))"
    using unbind_one_result [OF med addr, of hs w mxid h s] step by simp
  have n1: "net s1 = net s @ [unbind_request hs mxid med addr h]"
    using unbind_one_net [OF med addr, of hs w mxid h s] step by simp
  show ?case
  proof (cases j)
    case 0
    with Cons.prems(3) have "r = Inl e" by (simp add: r)
    then show ?thesis using 0 by (simp add: step n1)
  next
    case (Suc j')
    from Cons.prems(2) Suc obtain b where b: "r = Inr b"
      unfolding r by (auto simp add: All_less_Suc2)
    have j': "j' < length rest" using Cons.prems(1) Suc by simp
    have before': "\<forall>k<j'. \<exists>b. unbind_outcome
                  (http w (length (net s1) + k) (unbind_request hs mxid med addr (rest ! k))) = Inr b"
      using Cons.prems(2) Suc by (simp add: All_less_Suc2 n1)
    have raise': "unbind_outcome
                  (http w (length (net s1) + j') (unbind_request hs mxid med addr (rest ! j'))) = Inl e"
      using Cons.prems(3) Suc by (simp add: n1)
    have unfold: "unbind_each hs w mxid threepid (h # rest) c s
                  = unbind_each hs w mxid threepid rest (c \<and> b) s1"
      by (simp add: step b)
    show ?thesis
      unfolding unfold using Cons.IH [OF j' before' raise', of "c \<and> b"] Suc
      by (simp add: n1)
  qed
qed

text \<open>
  C4 (amended). For a threepid that holds medium and address, the list of identity servers
  is the given \<open>id_server\<close> when it is present and not empty, else the hosts recorded in
  the store for the user, medium and address. When the list is empty,
  \<open>try_unbind_threepid\<close> returns false and the state is unchanged (no request is sent).
  Otherwise the hosts are attempted in the order of the list. When every attempt returns
  (true, or false for the statuses 400, 404 and 501), one request was sent for every host
  and the result is the conjunction of the per-host results. When the attempt for host
  \<open>j\<close> is the first that raises, the call ends with that error and requests were sent
  for the hosts up to \<open>j\<close> only.
\<close>

theorem try_unbind_threepid_spec:
  assumes med: "threepid ''medium'' = Some med" and addr: "threepid ''address'' = Some addr"
      and hosts: "id_servers_to_unbind mxid threepid s = Inr hosts"
  shows "(\<forall>v. threepid ''id_server'' = Some v \<and> v \<noteq> [] \<longrightarrow> hosts = [v]) \<and>
         (threepid ''id_server'' = None \<or> threepid ''id_server'' = Some [] \<longrightarrow>
            hosts = get_id_servers_user_bound mxid med addr s) \<and>
         (hosts = [] \<longrightarrow> try_unbind_threepid hs w mxid threepid s = (Inr False, s)) \<and>
         (hosts \<noteq> [] \<and>
          (\<forall>k<length hosts. \<exists>b. unbind_outcome
              (http w (length (net s) + k) (unbind_request hs mxid med addr (hosts ! k))) = Inr b) \<longrightarrow>
            fst (try_unbind_threepid hs w mxid threepid s)
              = Inr (\<forall>k<length hosts. unbind_outcome
                  (http w (length (net s) + k) (unbind_request hs mxid med addr (hosts ! k))) = Inr True) \<and>
            net (snd (try_unbind_threepid hs w mxid threepid s))
              = net s @ map (unbind_request hs mxid med addr) hosts) \<and>
         (\<forall>j<length hosts. \<forall>e.
            (\<forall>k<j. \<exists>b. unbind_outcome
              (http w (length (net s) + k) (unbind_request hs mxid med addr (hosts ! k))) = Inr b) \<and>
            unbind_outcome
              (http w (length (net s) + j) (unbind_request hs mxid med addr (hosts ! j))) = Inl e \<longrightarrow>
            fst (try_unbind_threepid hs w mxid threepid s) = Inl e \<and>
            net (snd (try_unbind_threepid hs w mxid threepid s))
              = net s @ map (unbind_request hs mxid med addr) (take (Suc j) hosts))"
proof -
  have given: "\<forall>v. threepid ''id_server'' = Some v \<and> v \<noteq> [] \<longrightarrow> hosts = [v]"
    using hosts by (auto simp add: id_servers_to_unbind_def)
  have stored: "threepid ''id_server'' = None \<or> threepid ''id_server'' = Some [] \<longrightarrow>
            hosts = get_id_servers_user_bound mxid med addr s"
    using hosts med addr by (auto simp add: id_servers_to_unbind_def)
  have empty: "hosts = [] \<longrightarrow> try_unbind_threepid hs w mxid threepid s = (Inr False, s)"
    by (simp add: try_unbind_threepid_def hosts)
  have loop: "try_unbind_threepid hs w mxid threepid s = unbind_each hs w mxid threepid hosts True s"
    if "hosts \<noteq> []"
    using that by (simp add: try_unbind_threepid_def hosts)
  have all_return: "fst (try_unbind_threepid hs w mxid threepid s)
              = Inr (\<forall>k<length hosts. unbind_outcome
                  (http w (length (net s) + k) (unbind_request hs mxid med addr (hosts ! k))) = Inr True) \<and>
            net (snd (try_unbind_threepid hs w mxid threepid s))
              = net s @ map (unbind_request hs mxid med addr) hosts"
    if "hosts \<noteq> []" and "\<forall>k<length hosts. \<exists>b. unbind_outcome
              (http w (length (net s) + k) (unbind_request hs mxid med addr (hosts ! k))) = Inr b"
    using unbind_each_all_return [OF med addr that(2), of True] loop [OF that(1)] by simp
  have first_raise: "fst (try_unbind_threepid hs w mxid threepid s) = Inl e \<and>
            net (snd (try_unbind_threepid hs w mxid threepid s))
              = net s @ map (unbind_request hs mxid med addr) (take (Suc j) hosts)"
    if "j < length hosts"
      and "\<forall>k<j. \<exists>b. unbind_outcome
              (http w (length (net s) + k) (unbind_request hs mxid med addr (hosts ! k))) = Inr b"
      and "unbind_outcome
              (http w (length (net s) + j) (unbind_request hs mxid med addr (hosts ! j))) = Inl e"
    for j e
  proof -
    from that(1) have "hosts \<noteq> []" by auto
    then show ?thesis
      using unbind_each_first_raise [OF med addr that, of True] loop by simp
  qed
  show ?thesis
    using given stored empty all_return first_raise by blast
qed

theorem try_unbind_threepid_spec_witness:
  "id_servers_to_unbind ''@alice:home.example'' alice_email
       (s_bound [''a.example'', ''b.example'']) = Inr [''a.example'', ''b.example''] \<and>
   fst (try_unbind_threepid hs_plain (w_fail_for 404 ''a.example'') ''@alice:home.example''
          alice_email (s_bound [''a.example'', ''b.example''])) = Inr False \<and>
   map url (net (snd (try_unbind_threepid hs_plain (w_fail_for 404 ''a.example'')
          ''@alice:home.example'' alice_email (s_bound [''a.example'', ''b.example'']))))
     = [''https://a.example/_matrix/identity/api/v1/3pid/unbind'',
        ''https://b.example/_matrix/identity/api/v1/3pid/unbind''] \<and>
   fst (try_unbind_threepid hs_plain (w_fail_for 500 ''b.example'') ''@alice:home.example''
          alice_email (s_bound [''a.example'', ''b.example'', ''c.example'']))
     = Inl (SynapseError 502 ''Failed to contact identity server'' None) \<and>
   map url (net (snd (try_unbind_threepid hs_plain (w_fail_for 500 ''b.example'')
          ''@alice:home.example'' alice_email (s_bound [''a.example'', ''b.example'', ''c.example'']))))
     = [''https://a.example/_matrix/identity/api/v1/3pid/unbind'',
        ''https://b.example/_matrix/identity/api/v1/3pid/unbind''] \<and>
   id_servers_to_unbind ''@alice:home.example'' alice_email s_init = Inr [] \<and>
   try_unbind_threepid hs_plain (w_fail_for 404 ''a.example'') ''@alice:home.example''
          alice_email s_init = (Inr False, s_init)"
proof -
  have med: "alice_email ''medium'' = Some ''email''"
    and addr: "alice_email ''address'' = Some ''alice@example.com''"
    by (simp_all add: alice_email_def)
  have hosts: "id_servers_to_unbind ''@alice:home.example'' alice_email
                 (s_bound [''a.example'', ''b.example'']) = Inr [''a.example'', ''b.example'']"
    by (simp add: id_servers_to_unbind_def get_id_servers_user_bound_def alice_email_def
          s_bound_def alice_binding_def)
  have hosts3: "id_servers_to_unbind ''@alice:home.example'' alice_email
                 (s_bound [''a.example'', ''b.example'', ''c.example''])
                  = Inr [''a.example'', ''b.example'', ''c.example'']"
    by (simp add: id_servers_to_unbind_def get_id_servers_user_bound_def alice_email_def
          s_bound_def alice_binding_def)
  have none: "id_servers_to_unbind ''@alice:home.example'' alice_email s_init = Inr []"
    by (simp add: id_servers_to_unbind_def get_id_servers_user_bound_def alice_email_def
          s_init_def)
  have ret: "\<forall>k<length [''a.example'', ''b.example'']. \<exists>b. unbind_outcome
              (http (w_fail_for 404 ''a.example'')
                 (length (net (s_bound [''a.example'', ''b.example''])) + k)
                 (unbind_request hs_plain ''@alice:home.example'' ''email'' ''alice@example.com''
                    ([''a.example'', ''b.example''] ! k))) = Inr b"
    by (auto simp add: All_less_Suc w_fail_for_def unbind_request_def Let_def dict_get_def hs_plain_def)
  have two: "fst (try_unbind_threepid hs_plain (w_fail_for 404 ''a.example'') ''@alice:home.example''
          alice_email (s_bound [''a.example'', ''b.example''])) = Inr False \<and>
      map url (net (snd (try_unbind_threepid hs_plain (w_fail_for 404 ''a.example'')
          ''@alice:home.example'' alice_email (s_bound [''a.example'', ''b.example'']))))
        = [''https://a.example/_matrix/identity/api/v1/3pid/unbind'',
           ''https://b.example/_matrix/identity/api/v1/3pid/unbind'']"
    using try_unbind_threepid_spec [OF med addr hosts, of hs_plain "w_fail_for 404 ''a.example''"] ret
    by (simp add: All_less_Suc w_fail_for_def unbind_request_def Let_def dict_get_def hs_plain_def
          s_bound_def)
  have three: "fst (try_unbind_threepid hs_plain (w_fail_for 500 ''b.example'') ''@alice:home.example''
          alice_email (s_bound [''a.example'', ''b.example'', ''c.example'']))
        = Inl (SynapseError 502 ''Failed to contact identity server'' None) \<and>
      map url (net (snd (try_unbind_threepid hs_plain (w_fail_for 500 ''b.example'')
          ''@alice:home.example'' alice_email (s_bound [''a.example'', ''b.example'', ''c.example'']))))
        = [''https://a.example/_matrix/identity/api/v1/3pid/unbind'',
           ''https://b.example/_matrix/identity/api/v1/3pid/unbind'']"
  proof -
    note T = try_unbind_threepid_spec [OF med addr hosts3, of hs_plain "w_fail_for 500 ''b.example''"]
    from T have third: "\<forall>j<length [''a.example'', ''b.example'', ''c.example'']. \<forall>e.
            (\<forall>k<j. \<exists>b. unbind_outcome
              (http (w_fail_for 500 ''b.example'')
                 (length (net (s_bound [''a.example'', ''b.example'', ''c.example''])) + k)
                 (unbind_request hs_plain ''@alice:home.example'' ''email'' ''alice@example.com''
                    ([''a.example'', ''b.example'', ''c.example''] ! k))) = Inr b) \<and>
            unbind_outcome
              (http (w_fail_for 500 ''b.example'')
                 (length (net (s_bound [''a.example'', ''b.example'', ''c.example''])) + j)
                 (unbind_request hs_plain ''@alice:home.example'' ''email'' ''alice@example.com''
                    ([''a.example'', ''b.example'', ''c.example''] ! j))) = Inl e \<longrightarrow>
            fst (try_unbind_threepid hs_plain (w_fail_for 500 ''b.example'') ''@alice:home.example''
                   alice_email (s_bound [''a.example'', ''b.example'', ''c.example''])) = Inl e \<and>
            net (snd (try_unbind_threepid hs_plain (w_fail_for 500 ''b.example'') ''@alice:home.example''
                   alice_email (s_bound [''a.example'', ''b.example'', ''c.example''])))
              = net (s_bound [''a.example'', ''b.example'', ''c.example''])
                @ map (unbind_request hs_plain ''@alice:home.example'' ''email'' ''alice@example.com'')
                    (take (Suc j) [''a.example'', ''b.example'', ''c.example''])"
      by blast
    have j: "Suc 0 < length [''a.example'', ''b.example'', ''c.example'']" by simp
    have ante: "(\<forall>k<Suc 0. \<exists>b. unbind_outcome
              (http (w_fail_for 500 ''b.example'')
                 (length (net (s_bound [''a.example'', ''b.example'', ''c.example''])) + k)
                 (unbind_request hs_plain ''@alice:home.example'' ''email'' ''alice@example.com''
                    ([''a.example'', ''b.example'', ''c.example''] ! k))) = Inr b) \<and>
            unbind_outcome
              (http (w_fail_for 500 ''b.example'')
                 (length (net (s_bound [''a.example'', ''b.example'', ''c.example''])) + Suc 0)
                 (unbind_request hs_plain ''@alice:home.example'' ''email'' ''alice@example.com''
                    ([''a.example'', ''b.example'', ''c.example''] ! Suc 0)))
              = Inl (SynapseError 502 ''Failed to contact identity server'' None)"
      by (auto simp add: w_fail_for_def unbind_request_def Let_def dict_get_def hs_plain_def)
    from third [rule_format, OF j ante] show ?thesis
      by (simp add: unbind_request_def Let_def dict_get_def hs_plain_def s_bound_def)
  qed
  have zero: "try_unbind_threepid hs_plain (w_fail_for 404 ''a.example'') ''@alice:home.example''
          alice_email s_init = (Inr False, s_init)"
    using try_unbind_threepid_spec [OF med addr none, of hs_plain "w_fail_for 404 ''a.example''"]
    by simp
  show ?thesis
    using hosts two three none zero by simp
qed

text \<open>
  C4 as the specification states it (every host of the list is attempted, whatever the
  other attempts do) fails where one host answers with status 500: with bindings recorded
  for \<open>a.example\<close> and \<open>b.example\<close>, the attempt for \<open>a.example\<close> raises
  \<open>SynapseError\<close> 502, the call ends with that error, and \<open>b.example\<close>, which would
  have answered, is never contacted.
\<close>

theorem try_unbind_threepid_fatal_stops_loop:
  "id_servers_to_unbind ''@alice:home.example'' alice_email
       (s_bound [''a.example'', ''b.example'']) = Inr [''a.example'', ''b.example''] \<and>
   fst (try_unbind_threepid hs_plain (w_fail_for 500 ''a.example'') ''@alice:home.example''
          alice_email (s_bound [''a.example'', ''b.example'']))
     = Inl (SynapseError 502 ''Failed to contact identity server'' None) \<and>
   map url (net (snd (try_unbind_threepid hs_plain (w_fail_for 500 ''a.example'')
          ''@alice:home.example'' alice_email (s_bound [''a.example'', ''b.example'']))))
     = [''https://a.example/_matrix/identity/api/v1/3pid/unbind''] \<and>
   bindings (snd (try_unbind_threepid hs_plain (w_fail_for 500 ''a.example'')
          ''@alice:home.example'' alice_email (s_bound [''a.example'', ''b.example''])))
     = [alice_binding ''a.example'', alice_binding ''b.example'']"
  by (simp add: try_unbind_threepid_def id_servers_to_unbind_def get_id_servers_user_bound_def
        try_unbind_threepid_with_id_server_def unbind_request_def Let_def build_auth_headers_def
        dict_get_def hs_plain_def w_fail_for_def alice_email_def alice_binding_def s_bound_def
        logger_def send_def remove_user_bound_threepid_def)

section \<open>Properties of the token requests\<close>

text \<open>
  C5. Evaluation of the two token requests under the rewrite rules
  \<open>a.example \<mapsto> b.example\<close> and \<open>b.example \<mapsto> c.example\<close>, for the trusted host
  \<open>a.example\<close>. One lookup of \<open>a.example\<close> gives \<open>b.example\<close>, which is what
  \<open>requestEmailToken\<close> dials; \<open>requestMsisdnToken\<close> dials \<open>c.example\<close>.
\<close>

theorem msisdn_token_rewrites_twice:
  "dict_get (rewrite_identity_server_urls hs_chain) ''a.example'' ''a.example'' = ''b.example'' \<and>
   map url (net (snd (requestMsisdnToken hs_chain (w_answer (Returns Map.empty)) ''a.example''
          ''GB'' ''07700900000'' ''s3cr3t'' (JInt 1) [] s_init)))
     = [''https://c.example/_matrix/identity/api/v1/validate/msisdn/requestToken''] \<and>
   map url (net (snd (requestEmailToken hs_chain (w_answer (Returns Map.empty)) ''a.example''
          ''alice@example.com'' ''s3cr3t'' (JInt 1) None s_init)))
     = [''https://b.example/_matrix/identity/api/v1/validate/email/requestToken'']"
  by (simp add: requestMsisdnToken_def requestEmailToken_def should_trust_id_server_def Let_def
        dict_get_def dict_update_def hs_chain_def w_answer_def s_init_def send_def)

section \<open>Properties of the engine factory\<close>

text \<open>
  C10. \<open>create_engine\<close> returns an engine when \<open>database_config["name"]\<close> is
  \<open>sqlite3\<close>, \<open>psycopg2\<close> or \<open>psycopg\<close> and the class of that backend could be
  imported; when it could not, constructing the engine raises a \<open>RuntimeError\<close> whose
  message names the missing module; every other name raises the \<open>RuntimeError\<close>
  "Unsupported database engine".
\<close>

theorem create_engine_spec:
  assumes "database_config ''name'' = Some name"
  shows "(name = ''sqlite3'' \<and> sqlite_importable inst \<longrightarrow>
            create_engine inst database_config
              = Inr \<lparr>engine_name = ''Sqlite3Engine'', engine_config = database_config\<rparr>) \<and>
         (name = ''psycopg2'' \<and> postgres_importable inst \<longrightarrow>
            create_engine inst database_config
              = Inr \<lparr>engine_name = ''PostgresEngine'', engine_config = database_config\<rparr>) \<and>
         (name = ''psycopg'' \<and> psycopg_importable inst \<longrightarrow>
            create_engine inst database_config
              = Inr \<lparr>engine_name = ''PsycopgEngine'', engine_config = database_config\<rparr>) \<and>
         (name = ''sqlite3'' \<and> \<not> sqlite_importable inst \<longrightarrow>
            create_engine inst database_config
              = Inl (RuntimeError ''Cannot create Sqlite3EngineEngine -- sqlite3 module is not installed'')) \<and>
         (name = ''psycopg2'' \<and> \<not> postgres_importable inst \<longrightarrow>
            create_engine inst database_config
              = Inl (RuntimeError ''Cannot create PostgresEngineEngine -- psycopg2 module is not installed'')) \<and>
         (name = ''psycopg'' \<and> \<not> psycopg_importable inst \<longrightarrow>
            create_engine inst database_config
              = Inl (RuntimeError ''Cannot create PsycopgEngineEngine -- psycopg module is not installed'')) \<and>
         (name \<notin> {''sqlite3'', ''psycopg2'', ''psycopg''} \<longrightarrow>
            create_engine inst database_config
              = Inl (RuntimeError (''Unsupported database engine '' @ [CHR 0x27] @ name @ [CHR 0x27])))"
  using assms
  by (simp add: create_engine_def instantiate_def Sqlite3Engine_def PostgresEngine_def
        PsycopgEngine_def dummy_engine_def)

theorem create_engine_spec_witness:
  "create_engine \<lparr>postgres_importable = False, psycopg_importable = False, sqlite_importable = True\<rparr>
      [''name'' \<mapsto> ''sqlite3'']
     = Inr \<lparr>engine_name = ''Sqlite3Engine'', engine_config = [''name'' \<mapsto> ''sqlite3'']\<rparr> \<and>
   create_engine \<lparr>postgres_importable = False, psycopg_importable = False, sqlite_importable = True\<rparr>
      [''name'' \<mapsto> ''psycopg2'']
     = Inl (RuntimeError ''Cannot create PostgresEngineEngine -- psycopg2 module is not installed'') \<and>
   create_engine \<lparr>postgres_importable = False, psycopg_importable = False, sqlite_importable = True\<rparr>
      [''name'' \<mapsto> ''mysql'']
     = Inl (RuntimeError (''Unsupported database engine 'mysql'' @ [CHR 0x27]))"
  using create_engine_spec
      [of "[''name'' \<mapsto> ''sqlite3'']" "''sqlite3''"
          "\<lparr>postgres_importable = False, psycopg_importable = False, sqlite_importable = True\<rparr>"]
    create_engine_spec
      [of "[''name'' \<mapsto> ''psycopg2'']" "''psycopg2''"
          "\<lparr>postgres_importable = False, psycopg_importable = False, sqlite_importable = True\<rparr>"]
    create_engine_spec
      [of "[''name'' \<mapsto> ''mysql'']" "''mysql''"
          "\<lparr>postgres_importable = False, psycopg_importable = False, sqlite_importable = True\<rparr>"]
  by simp

end
